theory Spec2Isabelle
  imports Main
begin

section \<open>The poll page client of anket\<close>

text \<open>
  The repository holds the browser client of the poll page twice:
  \<^verbatim>\<open>src/templates/poll.js\<close> and \<^verbatim>\<open>server/src/templates/poll.js\<close>. The functions
  \<^verbatim>\<open>anket_getPollID\<close>, \<^verbatim>\<open>anket_makeItem\<close>, \<^verbatim>\<open>anket_renderItems\<close> and
  \<^verbatim>\<open>anket_sendVoteItemMsg\<close> and the close and error listeners are the same text in both
  files and are embedded once. The message listener, the construction of the WebSocket
  and the set-up of the canvas differ and are embedded per file; the definitions taken
  from \<^verbatim>\<open>server/src/templates/poll.js\<close> carry the prefix \<open>server_\<close>.

  Strings are lists of characters; the client only compares strings, tests them for
  emptiness, splits the path at \<open>/\<close> and concatenates.
\<close>

subsection \<open>Errors\<close>

text \<open>
  \<open>Error m\<close> is \<^verbatim>\<open>new Error(m)\<close>; \<open>TypeError\<close> is what the engine throws when a
  property of \<^verbatim>\<open>undefined\<close> or \<^verbatim>\<open>null\<close> is read or written, or when a value that is
  not a function is called; \<open>SyntaxError\<close> is what the WebSocket constructor throws
  when it cannot use its argument as the address of a socket.
\<close>

datatype js_error = Error string | TypeError | SyntaxError

subsection \<open>The page address\<close>

record location =
  pathname :: string
  protocol :: string
  host :: string

text \<open>
  \<^verbatim>\<open>s.split("/")\<close>: the pieces of \<open>s\<close> between the slashes, in order. There is always
  at least one piece, and pieces may be empty.
\<close>

fun split_slash :: "string \<Rightarrow> string list" where
  "split_slash [] = [[]]"
| "split_slash (c # cs) =
     (if c = CHR ''/'' then [] # split_slash cs
      else (case split_slash cs of [] \<Rightarrow> [[c]] | w # ws \<Rightarrow> (c # w) # ws))"

text \<open>\<^verbatim>\<open>xs.slice(-k)\<close>: the last \<open>k\<close> elements, or all of \<open>xs\<close> when it has fewer.\<close>

definition slice_from_end :: "nat \<Rightarrow> 'a list \<Rightarrow> 'a list" where
  "slice_from_end k xs = drop (length xs - k) xs"

definition poll_id_message :: string where
  "poll_id_message = ''Couldn't determine poll ID from this URL.''"

definition anket_getPollID :: "location \<Rightarrow> js_error + string" where
  "anket_getPollID loc =
     (let urlArr = slice_from_end 2 (split_slash (pathname loc)) in
      if length urlArr < 2 \<or> urlArr ! 0 \<noteq> ''p'' \<or> length (urlArr ! 1) = 0
      then Inl (Error poll_id_message)
      else Inr (urlArr ! 1))"

definition anket_getWSUrl :: "location \<Rightarrow> string \<Rightarrow> string" where
  "anket_getWSUrl loc pollID =
     (let scheme = (if protocol loc = ''https:'' then ''wss'' else ''ws'') in
      scheme @ ''://'' @ host loc @ ''/p/'' @ pollID @ ''/ws'')"

text \<open>
  \<^verbatim>\<open>server/src/templates/poll.js\<close> has no \<^verbatim>\<open>anket_getWSUrl\<close>: it hands the template
  string \<^verbatim>\<open>`/p/${pollID}/ws`\<close> to the WebSocket constructor.
\<close>

definition server_ws_url :: "string \<Rightarrow> string" where
  "server_ws_url pollID = ''/p/'' @ pollID @ ''/ws''"

text \<open>
  The pathname whose pieces are the given ones: the inverse of \<open>split_slash\<close>, used to
  speak about the segments of a path.
\<close>

fun join_slash :: "string list \<Rightarrow> string" where
  "join_slash [] = []"
| "join_slash [s] = s"
| "join_slash (s # t # ts) = s @ CHR ''/'' # join_slash (t # ts)"

subsection \<open>Wire messages\<close>

text \<open>
  An item id reaches the client as a JSON number or a JSON string; the client passes it
  on unchanged and writes its string form into an attribute.
\<close>

datatype item_id = NumID int | StrID string

text \<open>\<^verbatim>\<open>ItemView\<close>: the \<^verbatim>\<open>details\<close> object of \<^verbatim>\<open>anket_makeItem\<close>.\<close>

record item_view =
  iv_id :: item_id
  iv_text :: string
  iv_score :: int
  iv_user_vote :: int

record poll_state_update =
  poll_title :: string
  top_items :: "item_view list"
  latest_items :: "item_view list"
  user_items :: "item_view list"

text \<open>
  The \<^verbatim>\<open>content\<close> of a server message: a string (the notice of an
  \<^verbatim>\<open>ActionResponse\<close>) or the object of a \<^verbatim>\<open>PollStateUpdate\<close>. The message listener
  does not check which of the two it got, so both shapes can reach either branch.
\<close>

datatype content = Text string | State poll_state_update

text \<open>The parsed message, \<^verbatim>\<open>JSON.parse(event.data)\<close>.\<close>

record server_msg =
  msg_type :: string
  msg_content :: content

text \<open>
  What the client hands to \<^verbatim>\<open>JSON.stringify\<close> and then to \<^verbatim>\<open>socket.send\<close>:
  \<^verbatim>\<open>{type: "AddItem", content: {text}}\<close> and
  \<^verbatim>\<open>{type: "VoteItem", content: {item_id, vote}}\<close>.
\<close>

datatype client_msg = AddItem string | VoteItem item_id int

subsection \<open>Reading the content, and the string form of values\<close>

text \<open>
  Reading a property that a value does not have gives \<^verbatim>\<open>undefined\<close>, here \<open>None\<close>.
  A string has none of the properties \<^verbatim>\<open>poll_title\<close>, \<^verbatim>\<open>top_items\<close>,
  \<^verbatim>\<open>latest_items\<close>, \<^verbatim>\<open>user_items\<close>.
\<close>

fun content_poll_title :: "content \<Rightarrow> string option" where
  "content_poll_title (Text t) = None"
| "content_poll_title (State p) = Some (poll_title p)"

fun content_top_items :: "content \<Rightarrow> item_view list option" where
  "content_top_items (Text t) = None"
| "content_top_items (State p) = Some (top_items p)"

fun content_latest_items :: "content \<Rightarrow> item_view list option" where
  "content_latest_items (Text t) = None"
| "content_latest_items (State p) = Some (latest_items p)"

fun content_user_items :: "content \<Rightarrow> item_view list option" where
  "content_user_items (Text t) = None"
| "content_user_items (State p) = Some (user_items p)"

text \<open>
  The string form of a number that is an integer: its decimal digits, with a minus sign
  when negative. (JavaScript writes integers from \<open>10\<^sup>2\<^sup>1\<close> on in exponent
  notation; scores, votes and ids stay far below.)
\<close>

definition digit_char :: "nat \<Rightarrow> char" where
  "digit_char d = char_of (48 + d)"

fun show_nat :: "nat \<Rightarrow> string" where
  "show_nat n = (if n < 10 then [digit_char n] else show_nat (n div 10) @ [digit_char (n mod 10)])"

declare show_nat.simps [simp del]

definition show_int :: "int \<Rightarrow> string" where
  "show_int i = (if i < 0 then CHR ''-'' # show_nat (nat (- i)) else show_nat (nat i))"

fun show_id :: "item_id \<Rightarrow> string" where
  "show_id (NumID n) = show_int n"
| "show_id (StrID s) = s"

text \<open>
  Reading a string of decimal digits back, to check \<open>show_nat\<close> against: the client
  has no such function.
\<close>

definition digit_value :: "char \<Rightarrow> nat" where
  "digit_value c = of_char c - 48"

definition read_nat :: "string \<Rightarrow> nat" where
  "read_nat cs = foldl (\<lambda>a c. 10 * a + digit_value c) 0 cs"

text \<open>The string a DOM string setter or \<^verbatim>\<open>alert\<close> makes of the content.\<close>

fun show_content :: "content \<Rightarrow> string" where
  "show_content (Text t) = t"
| "show_content (State p) = ''[object Object]''"

text \<open>The string \<^verbatim>\<open>innerText\<close> is set to when it is assigned a string or \<^verbatim>\<open>undefined\<close>.\<close>

fun show_string_or_undefined :: "string option \<Rightarrow> string" where
  "show_string_or_undefined None = ''undefined''"
| "show_string_or_undefined (Some t) = t"

subsection \<open>The page\<close>

text \<open>
  The element \<^verbatim>\<open>anket_makeItem\<close> builds: its two attributes, the text of the four
  elements of the item template, and the variable \<^verbatim>\<open>id\<close> that the two click handlers
  have captured.
\<close>

record item_elem =
  attr_itemID :: string
  attr_itemUserVote :: string
  option_score :: string
  option_content :: string
  option_vote_up :: string
  option_vote_down :: string
  closure_id :: item_id

text \<open>
  The canvas after \<^verbatim>\<open>anket_initCanvas\<close>: the text of \<^verbatim>\<open>#anket-pollTitle\<close>, the value
  of the text input of the form, and the children of \<^verbatim>\<open>#anket-itemsTop\<close>,
  \<^verbatim>\<open>#anket-itemsLatest\<close> and \<^verbatim>\<open>#anket-itemsUser\<close>.
\<close>

record canvas =
  title :: string
  itemText :: string
  itemsTop :: "item_elem list"
  itemsLatest :: "item_elem list"
  itemsUser :: "item_elem list"

text \<open>The socket: the address it was constructed with and what was handed to \<^verbatim>\<open>send\<close>.\<close>

record websocket =
  url :: string
  sent :: "client_msg list"

text \<open>
  \<^verbatim>\<open>new WebSocket(u)\<close>. The constructor is the browser's. It parses \<open>u\<close> as a URL and
  throws a SyntaxError when that fails or when the scheme is not \<open>ws\<close> or \<open>wss\<close>.
  Browsers come in two kinds. The older constructor parses \<open>u\<close> on its own, so only an
  absolute address will do. The newer one (the WebSockets standard since 2023) parses
  \<open>u\<close> relative to the address of the page and then turns the scheme \<open>http\<close> into
  \<open>ws\<close> and \<open>https\<close> into \<open>wss\<close>; a page of any other scheme still gets the
  SyntaxError.

  The two clients pass an absolute \<open>ws://\<close> or \<open>wss://\<close> address, or a path that
  starts with one slash; these are the arguments modelled, and any other argument counts
  as not usable. Host and path come from the address of a page that the poll server has
  served, where the browser has parsed them already: parsing them again leaves them as
  they are, and the checks the parser makes on a host are not modelled. The socket keeps
  the address it was made for in \<open>url\<close>.
\<close>

datatype constructor = AbsoluteOnly | ResolvesAgainstPage

definition is_ws_url :: "string \<Rightarrow> bool" where
  "is_ws_url u = (take 5 u = ''ws://'' \<or> take 6 u = ''wss://'')"

definition new_WebSocket :: "constructor \<Rightarrow> location \<Rightarrow> string \<Rightarrow> js_error + websocket" where
  "new_WebSocket kind loc u =
     (if is_ws_url u then Inr \<lparr>url = u, sent = []\<rparr>
      else if kind = ResolvesAgainstPage \<and> take 1 u = ''/'' \<and> take 2 u \<noteq> ''//'' then
        (if protocol loc = ''https:'' then Inr \<lparr>url = ''wss://'' @ host loc @ u, sent = []\<rparr>
         else if protocol loc = ''http:'' then Inr \<lparr>url = ''ws://'' @ host loc @ u, sent = []\<rparr>
         else Inl SyntaxError)
      else Inl SyntaxError)"

text \<open>
  The global \<^verbatim>\<open>anket\<close> and the window. \<open>canvas\<close> is \<open>None\<close> until
  \<^verbatim>\<open>anket_initCanvas\<close> has run: \<^verbatim>\<open>anket.canvas.title\<close>, \<^verbatim>\<open>anket.canvas.form\<close> and
  the three list fields are \<^verbatim>\<open>undefined\<close> until then. \<open>socket\<close> is \<open>None\<close> while
  \<^verbatim>\<open>anket.socket\<close> is \<^verbatim>\<open>null\<close>. \<open>alerts\<close> are the texts shown by \<^verbatim>\<open>alert\<close>, oldest
  first.
\<close>

record page =
  canvas :: "canvas option"
  socket :: "websocket option"
  alerts :: "string list"

definition alert :: "string \<Rightarrow> page \<Rightarrow> page" where
  "alert m s = s\<lparr>alerts := alerts s @ [m]\<rparr>"

text \<open>
  The four arrows: U+2B06 and U+21E7 on the up button, U+2B07 and U+21E9 on the down
  button, as their UTF-8 bytes.
\<close>

definition arrow_up_black :: string where
  "arrow_up_black = [CHR 0xE2, CHR 0xAC, CHR 0x86]"

definition arrow_up_white :: string where
  "arrow_up_white = [CHR 0xE2, CHR 0x87, CHR 0xA7]"

definition arrow_down_black :: string where
  "arrow_down_black = [CHR 0xE2, CHR 0xAC, CHR 0x87]"

definition arrow_down_white :: string where
  "arrow_down_white = [CHR 0xE2, CHR 0x87, CHR 0xA9]"

definition anket_makeItem :: "item_view \<Rightarrow> item_elem" where
  "anket_makeItem details =
     \<lparr>attr_itemID = show_id (iv_id details),
      attr_itemUserVote = show_int (iv_user_vote details),
      option_score = show_int (iv_score details),
      option_content = iv_text details,
      option_vote_up = (if iv_user_vote details = 1 then arrow_up_black else arrow_up_white),
      option_vote_down = (if iv_user_vote details = - 1 then arrow_down_black else arrow_down_white),
      closure_id = iv_id details\<rparr>"

definition anket_sendVoteItemMsg :: "item_id \<Rightarrow> int \<Rightarrow> page \<Rightarrow> js_error option \<times> page" where
  "anket_sendVoteItemMsg itemID voteValue s =
     (case socket s of
        None \<Rightarrow> (Some TypeError, s)
      | Some ws \<Rightarrow> (None, s\<lparr>socket := Some (ws\<lparr>sent := sent ws @ [VoteItem itemID voteValue]\<rparr>)\<rparr>))"

text \<open>
  The click handlers of the two buttons of an item. Each reads the attribute
  \<^verbatim>\<open>anket-itemUserVote\<close> of its item and compares it with a string.
\<close>

definition buttonUp_onclick :: "item_elem \<Rightarrow> page \<Rightarrow> js_error option \<times> page" where
  "buttonUp_onclick item s =
     (let current = attr_itemUserVote item;
          v = (if current = ''1'' then 0 else 1)
      in anket_sendVoteItemMsg (closure_id item) v s)"

definition buttonDown_onclick :: "item_elem \<Rightarrow> page \<Rightarrow> js_error option \<times> page" where
  "buttonDown_onclick item s =
     (let current = attr_itemUserVote item;
          v = (if current = ''-1'' then 0 else - 1)
      in anket_sendVoteItemMsg (closure_id item) v s)"

text \<open>
  \<^verbatim>\<open>anket_renderItems(items, target)\<close>, as the new children of \<open>target\<close>. The target
  is emptied first; then \<^verbatim>\<open>items.forEach\<close> appends one element per entry, and throws
  when \<open>items\<close> is \<^verbatim>\<open>undefined\<close>.
\<close>

definition anket_renderItems ::
  "item_view list option \<Rightarrow> item_elem list \<Rightarrow> js_error option \<times> item_elem list" where
  "anket_renderItems items target =
     (let emptied = [] in
      case items of
        None \<Rightarrow> (Some TypeError, emptied)
      | Some ds \<Rightarrow> (None, foldl (\<lambda>t details. t @ [anket_makeItem details]) emptied ds))"

text \<open>
  The body of \<^verbatim>\<open>case "PollStateUpdate":\<close> of the message listener, the same text in
  both files, run on the content of the message. Each statement can throw, and what the
  statements before it have written stays written.
\<close>

definition case_PollStateUpdate :: "content \<Rightarrow> page \<Rightarrow> js_error option \<times> page" where
  "case_PollStateUpdate c s =
     (case canvas s of
        None \<Rightarrow> (Some TypeError, s)
      | Some cv0 \<Rightarrow>
          (let cv1 = cv0\<lparr>title := show_string_or_undefined (content_poll_title c)\<rparr>;
               (e1, top) = anket_renderItems (content_top_items c) (itemsTop cv1);
               cv2 = cv1\<lparr>itemsTop := top\<rparr>
           in if e1 \<noteq> None then (e1, s\<lparr>canvas := Some cv2\<rparr>)
              else
                (let (e2, latest) = anket_renderItems (content_latest_items c) (itemsLatest cv2);
                     cv3 = cv2\<lparr>itemsLatest := latest\<rparr>
                 in if e2 \<noteq> None then (e2, s\<lparr>canvas := Some cv3\<rparr>)
                    else
                      (let (e3, user) = anket_renderItems (content_user_items c) (itemsUser cv3);
                           cv4 = cv3\<lparr>itemsUser := user\<rparr>
                       in (e3, s\<lparr>canvas := Some cv4\<rparr>)))))"

text \<open>
  The message listener of \<^verbatim>\<open>src/templates/poll.js\<close>, on the parsed message. The
  \<^verbatim>\<open>switch\<close> compares \<^verbatim>\<open>data.type\<close> with the two strings; each case ends in
  \<^verbatim>\<open>break\<close>, and there is no default case.
\<close>

definition message_listener :: "server_msg \<Rightarrow> page \<Rightarrow> js_error option \<times> page" where
  "message_listener data s =
     (if msg_type data = ''ActionResponse'' then
        (None, alert (show_content (msg_content data)) s)
      else if msg_type data = ''PollStateUpdate'' then
        case_PollStateUpdate (msg_content data) s
      else (None, s))"

text \<open>
  The message listener of \<^verbatim>\<open>server/src/templates/poll.js\<close>. Its
  \<^verbatim>\<open>case "ActionResponse":\<close> has no \<^verbatim>\<open>break\<close>: after the alert, control runs on
  into the statements of \<^verbatim>\<open>case "PollStateUpdate":\<close>.
\<close>

definition server_message_listener :: "server_msg \<Rightarrow> page \<Rightarrow> js_error option \<times> page" where
  "server_message_listener data s =
     (if msg_type data = ''ActionResponse'' then
        case_PollStateUpdate (msg_content data) (alert (show_content (msg_content data)) s)
      else if msg_type data = ''PollStateUpdate'' then
        case_PollStateUpdate (msg_content data) s
      else (None, s))"

text \<open>
  \<^verbatim>\<open>anket_initCanvas\<close> writes the canvas template: an empty title, an empty text
  input and three empty lists.
\<close>

definition anket_initCanvas :: "page \<Rightarrow> page" where
  "anket_initCanvas s =
     s\<lparr>canvas := Some \<lparr>title = [], itemText = [], itemsTop = [], itemsLatest = [], itemsUser = []\<rparr>\<rparr>"

definition open_listener :: "page \<Rightarrow> js_error option \<times> page" where
  "open_listener s = (None, anket_initCanvas s)"

text \<open>
  The submit listener that \<^verbatim>\<open>anket_initCanvas\<close> of \<^verbatim>\<open>src/templates/poll.js\<close> puts on
  the form (the other file has none). The event is modelled by its flag
  \<^verbatim>\<open>defaultPrevented\<close>, which \<^verbatim>\<open>event.preventDefault()\<close> sets.
\<close>

record submit_event =
  defaultPrevented :: bool

definition submit_listener ::
  "submit_event \<Rightarrow> page \<Rightarrow> js_error option \<times> submit_event \<times> page" where
  "submit_listener event s =
     (let event' = event\<lparr>defaultPrevented := True\<rparr> in
      case canvas s of
        None \<Rightarrow> (Some TypeError, event', s)
      | Some cv \<Rightarrow>
          (if length (itemText cv) > 0 then
             (case socket s of
                None \<Rightarrow> (Some TypeError, event', s)
              | Some ws \<Rightarrow>
                  (None, event',
                   s\<lparr>socket := Some (ws\<lparr>sent := sent ws @ [AddItem (itemText cv)]\<rparr>),
                     canvas := Some (cv\<lparr>itemText := []\<rparr>)\<rparr>))
           else (None, event', s\<lparr>canvas := Some (cv\<lparr>itemText := []\<rparr>)\<rparr>)))"

text \<open>
  The close and error listeners. A close event says whether the close was clean and
  carries a code and a reason; the listener reads none of them.
\<close>

record close_event =
  wasClean :: bool
  code :: nat
  reason :: string

definition close_listener :: "close_event \<Rightarrow> page \<Rightarrow> js_error option \<times> page" where
  "close_listener event s = (None, alert ''websocket connection closed'' s)"

definition error_listener :: "page \<Rightarrow> js_error option \<times> page" where
  "error_listener s = (None, alert ''websocket connection lost'' s)"

text \<open>
  \<^verbatim>\<open>anket_main\<close> of \<^verbatim>\<open>src/templates/poll.js\<close>, in a browser with the given kind of
  constructor: the poll id is read from the address, and
  \<^verbatim>\<open>anket.socket = new WebSocket(anket_getWSUrl(pollID))\<close>. When
  \<^verbatim>\<open>anket_getPollID\<close> or the constructor throws, \<^verbatim>\<open>anket.socket\<close> is not assigned and
  no listener is added. The placeholder text written into the canvas before the socket
  opens is not part of the page state.
\<close>

definition anket_main :: "constructor \<Rightarrow> location \<Rightarrow> page \<Rightarrow> js_error option \<times> page" where
  "anket_main kind loc s =
     (case anket_getPollID loc of
        Inl e \<Rightarrow> (Some e, s)
      | Inr pollID \<Rightarrow>
          (case new_WebSocket kind loc (anket_getWSUrl loc pollID) of
             Inl e \<Rightarrow> (Some e, s)
           | Inr ws \<Rightarrow> (None, s\<lparr>socket := Some ws\<rparr>)))"

text \<open>
  \<^verbatim>\<open>anket_main\<close> of \<^verbatim>\<open>server/src/templates/poll.js\<close>:
  \<^verbatim>\<open>anket.socket = new WebSocket(`/p/${pollID}/ws`)\<close>.
\<close>

definition server_anket_main :: "constructor \<Rightarrow> location \<Rightarrow> page \<Rightarrow> js_error option \<times> page" where
  "server_anket_main kind loc s =
     (case anket_getPollID loc of
        Inl e \<Rightarrow> (Some e, s)
      | Inr pollID \<Rightarrow>
          (case new_WebSocket kind loc (server_ws_url pollID) of
             Inl e \<Rightarrow> (Some e, s)
           | Inr ws \<Rightarrow> (None, s\<lparr>socket := Some ws\<rparr>)))"

text \<open>
  Removing white space at both ends of a string, as \<^verbatim>\<open>trim\<close> does. The client never
  calls it; it is here to state what the specification says about the text of an item.
\<close>

definition is_space :: "char \<Rightarrow> bool" where
  "is_space c = (c = CHR '' '' \<or> c = CHR 0x09 \<or> c = CHR 0x0A \<or> c = CHR 0x0B \<or> c = CHR 0x0C \<or> c = CHR 0x0D)"

definition trim :: "string \<Rightarrow> string" where
  "trim t = rev (dropWhile is_space (rev (dropWhile is_space t)))"

text \<open>The page as the script finds it: no canvas, no socket, nothing shown.\<close>

definition initial_page :: page where
  "initial_page = \<lparr>canvas = None, socket = None, alerts = []\<rparr>"

text \<open>
  A page to run the listeners on: the socket is open, the canvas shows a poll with one
  item, and the text input holds \<open>input\<close>.
\<close>

definition example_item :: item_view where
  "example_item = \<lparr>iv_id = NumID 7, iv_text = ''Pizza'', iv_score = 2, iv_user_vote = 1\<rparr>"

definition example_page :: "string \<Rightarrow> page" where
  "example_page input =
     \<lparr>canvas = Some \<lparr>title = ''Lunch'', itemText = input,
                      itemsTop = [anket_makeItem example_item],
                      itemsLatest = [anket_makeItem example_item],
                      itemsUser = []\<rparr>,
      socket = Some \<lparr>url = ''ws://localhost:3000/p/lunch/ws'', sent = []\<rparr>,
      alerts = []\<rparr>"

section \<open>Rendering\<close>

lemma foldl_append_map: "foldl (\<lambda>t d. t @ [f d]) acc ds = acc @ map f ds"
  by (induction ds arbitrary: acc) simp_all

lemma anket_renderItems_array:
  "anket_renderItems (Some ds) target = (None, map anket_makeItem ds)"
  by (simp add: anket_renderItems_def foldl_append_map)

lemma anket_renderItems_undefined:
  "anket_renderItems None target = (Some TypeError, [])"
  by (simp add: anket_renderItems_def)

lemma case_PollStateUpdate_State:
  assumes "canvas s = Some cv"
  shows "case_PollStateUpdate (State p) s =
    (None, s\<lparr>canvas := Some \<lparr>title = poll_title p, itemText = itemText cv,
                               itemsTop = map anket_makeItem (top_items p),
                               itemsLatest = map anket_makeItem (latest_items p),
                               itemsUser = map anket_makeItem (user_items p)\<rparr>\<rparr>)"
  using assms by (simp add: case_PollStateUpdate_def anket_renderItems_array)

lemma case_PollStateUpdate_Text:
  assumes "canvas s = Some cv"
  shows "case_PollStateUpdate (Text t) s =
    (Some TypeError, s\<lparr>canvas := Some (cv\<lparr>title := ''undefined'', itemsTop := []\<rparr>)\<rparr>)"
  using assms by (simp add: case_PollStateUpdate_def anket_renderItems_undefined)

lemma case_PollStateUpdate_no_canvas:
  "canvas s = None \<Longrightarrow> case_PollStateUpdate c s = (Some TypeError, s)"
  by (simp add: case_PollStateUpdate_def)

section \<open>The message listener\<close>

text \<open>
  In \<^verbatim>\<open>src/templates/poll.js\<close> an \<^verbatim>\<open>ActionResponse\<close> only shows the alert: the canvas
  and the socket stay as they are, whatever the content is.
\<close>

lemma message_listener_ActionResponse:
  "msg_type data = ''ActionResponse'' \<Longrightarrow>
   message_listener data s = (None, s\<lparr>alerts := alerts s @ [show_content (msg_content data)]\<rparr>)"
  by (simp add: message_listener_def alert_def)

text \<open>
  In \<^verbatim>\<open>server/src/templates/poll.js\<close> the same message, with its string content,
  shows the alert and then runs the statements of the next case: the title is
  overwritten, the top list is emptied, and the listener stops with a TypeError.
\<close>

lemma server_message_listener_ActionResponse:
  assumes "msg_type data = ''ActionResponse''" and "msg_content data = Text t"
      and "canvas s = Some cv"
  shows "server_message_listener data s =
    (Some TypeError,
     s\<lparr>alerts := alerts s @ [t],
       canvas := Some (cv\<lparr>title := ''undefined'', itemsTop := []\<rparr>)\<rparr>)"
proof -
  have "canvas (alert t s) = Some cv"
    using assms(3) by (simp add: alert_def)
  then have "case_PollStateUpdate (Text t) (alert t s) =
    (Some TypeError, (alert t s)\<lparr>canvas := Some (cv\<lparr>title := ''undefined'', itemsTop := []\<rparr>)\<rparr>)"
    by (rule case_PollStateUpdate_Text)
  then show ?thesis
    using assms(1,2) by (simp add: server_message_listener_def alert_def)
qed

text \<open>
  C1. An \<^verbatim>\<open>ActionResponse\<close> is to show its content as an alert and leave the rendered
  poll as it is, without running into the \<^verbatim>\<open>PollStateUpdate\<close> statements. The
  listener of \<^verbatim>\<open>server/src/templates/poll.js\<close> does run into them: on the example
  page, which shows the title \<open>Lunch\<close> and one item in the top list, the notice
  \<open>Item text cannot be empty\<close> is shown, and then the title reads \<open>undefined\<close>, the
  top list is empty and the listener has thrown a TypeError.
\<close>

theorem server_message_listener_ActionResponse_falls_through:
  "server_message_listener
     \<lparr>msg_type = ''ActionResponse'', msg_content = Text ''Item text cannot be empty''\<rparr>
     (example_page []) =
   (Some TypeError,
    \<lparr>canvas = Some \<lparr>title = ''undefined'', itemText = [],
                     itemsTop = [],
                     itemsLatest = [anket_makeItem example_item],
                     itemsUser = []\<rparr>,
     socket = Some \<lparr>url = ''ws://localhost:3000/p/lunch/ws'', sent = []\<rparr>,
     alerts = [''Item text cannot be empty'']\<rparr>)
   \<and> title (the (canvas (example_page []))) = ''Lunch''
   \<and> itemsTop (the (canvas (example_page []))) = [anket_makeItem example_item]"
  by (simp add: server_message_listener_def case_PollStateUpdate_def
      anket_renderItems_undefined alert_def example_page_def)

text \<open>
  C4. A \<^verbatim>\<open>PollStateUpdate\<close> sets the title to \<^verbatim>\<open>content.poll_title\<close> and replaces the
  children of the three lists: afterwards each list holds the elements made from the
  entries of \<^verbatim>\<open>top_items\<close>, \<^verbatim>\<open>latest_items\<close> and \<^verbatim>\<open>user_items\<close>, one per entry and
  in the order received, and nothing of what the lists held before. This holds for the
  listener of either file, once the canvas has been set up.
\<close>

theorem message_listener_PollStateUpdate:
  assumes "msg_type data = ''PollStateUpdate''" and "msg_content data = State p"
      and "canvas s = Some cv"
  shows "message_listener data s =
    (None, s\<lparr>canvas := Some \<lparr>title = poll_title p, itemText = itemText cv,
                               itemsTop = map anket_makeItem (top_items p),
                               itemsLatest = map anket_makeItem (latest_items p),
                               itemsUser = map anket_makeItem (user_items p)\<rparr>\<rparr>)
    \<and> server_message_listener data s = message_listener data s"
  using assms case_PollStateUpdate_State [OF assms(3), of p]
  by (simp add: message_listener_def server_message_listener_def)

theorem message_listener_PollStateUpdate_witness:
  "message_listener
     \<lparr>msg_type = ''PollStateUpdate'',
      msg_content = State \<lparr>poll_title = ''Dinner'', top_items = [example_item, example_item],
                           latest_items = [], user_items = [example_item]\<rparr>\<rparr>
     (example_page ''abc'') =
   (None,
    \<lparr>canvas = Some \<lparr>title = ''Dinner'', itemText = ''abc'',
                     itemsTop = [anket_makeItem example_item, anket_makeItem example_item],
                     itemsLatest = [],
                     itemsUser = [anket_makeItem example_item]\<rparr>,
     socket = Some \<lparr>url = ''ws://localhost:3000/p/lunch/ws'', sent = []\<rparr>,
     alerts = []\<rparr>)"
  using message_listener_PollStateUpdate
    [of "\<lparr>msg_type = ''PollStateUpdate'',
          msg_content = State \<lparr>poll_title = ''Dinner'', top_items = [example_item, example_item],
                               latest_items = [], user_items = [example_item]\<rparr>\<rparr>"
        "\<lparr>poll_title = ''Dinner'', top_items = [example_item, example_item],
          latest_items = [], user_items = [example_item]\<rparr>"
        "example_page ''abc''"
        "\<lparr>title = ''Lunch'', itemText = ''abc'',
          itemsTop = [anket_makeItem example_item],
          itemsLatest = [anket_makeItem example_item],
          itemsUser = []\<rparr>"]
  by (simp add: example_page_def)

text \<open>
  C6. A message whose type is neither \<^verbatim>\<open>ActionResponse\<close> nor \<^verbatim>\<open>PollStateUpdate\<close>
  matches no case of the switch: the listener of either file returns without an error
  and the page is as before, so nothing is alerted, nothing is rendered, nothing is sent
  and the socket is untouched.
\<close>

theorem message_listener_unknown_type:
  assumes "msg_type data \<noteq> ''ActionResponse''" and "msg_type data \<noteq> ''PollStateUpdate''"
  shows "message_listener data s = (None, s) \<and> server_message_listener data s = (None, s)"
  using assms by (simp add: message_listener_def server_message_listener_def)

theorem message_listener_unknown_type_witness:
  "message_listener \<lparr>msg_type = ''Ping'', msg_content = Text ''hello''\<rparr> (example_page ''abc'')
     = (None, example_page ''abc'')
   \<and> server_message_listener \<lparr>msg_type = ''Ping'', msg_content = Text ''hello''\<rparr> (example_page ''abc'')
     = (None, example_page ''abc'')"
  using message_listener_unknown_type
    [of "\<lparr>msg_type = ''Ping'', msg_content = Text ''hello''\<rparr>" "example_page ''abc''"]
  by simp

section \<open>The socket's close and error listeners\<close>

text \<open>
  C9. A close event and an error event each show one fixed alert and do nothing else:
  the close listener gives the same result for every close event, clean or not, and
  neither listener touches the socket or the canvas, so no new connection is made.
\<close>

theorem close_and_error_listeners_only_alert:
  "close_listener event s = (None, s\<lparr>alerts := alerts s @ [''websocket connection closed'']\<rparr>)
   \<and> error_listener s = (None, s\<lparr>alerts := alerts s @ [''websocket connection lost'']\<rparr>)
   \<and> close_listener event s = close_listener event' s"
  by (simp add: close_listener_def error_listener_def alert_def)

section \<open>The form\<close>

text \<open>
  The form and its listener exist once \<^verbatim>\<open>anket_initCanvas\<close> has run, which is in the
  open listener of the socket; so the listener runs on pages with a canvas and a socket.
\<close>

lemma submit_listener_result:
  assumes "canvas s = Some cv" and "socket s = Some ws"
  shows "submit_listener event s =
    (None, event\<lparr>defaultPrevented := True\<rparr>,
     s\<lparr>socket := Some (ws\<lparr>sent := (if itemText cv = [] then sent ws
                                     else sent ws @ [AddItem (itemText cv)])\<rparr>),
       canvas := Some (cv\<lparr>itemText := []\<rparr>)\<rparr>)"
  using assms by (cases s) (simp add: submit_listener_def)

text \<open>
  C3, as the code has it. On submission an \<^verbatim>\<open>AddItem\<close> message is sent exactly when
  the text of the input has length greater than zero, and it carries that text
  unchanged. The client does not trim: the test is \<^verbatim>\<open>input.value.length > 0\<close>.
\<close>

theorem submit_listener_sends_iff_nonempty:
  assumes "canvas s = Some cv" and "socket s = Some ws"
  shows "map_option sent (socket (snd (snd (submit_listener event s)))) =
    Some (if length (itemText cv) > 0 then sent ws @ [AddItem (itemText cv)] else sent ws)"
  using assms by (simp add: submit_listener_result)

theorem submit_listener_sends_iff_nonempty_witness:
  "map_option sent (socket (snd (snd (submit_listener \<lparr>defaultPrevented = False\<rparr> (example_page ''Pasta'')))))
     = Some [AddItem ''Pasta'']
   \<and> map_option sent (socket (snd (snd (submit_listener \<lparr>defaultPrevented = False\<rparr> (example_page [])))))
     = Some []"
  using submit_listener_sends_iff_nonempty
    [of "example_page ''Pasta''"
        "\<lparr>title = ''Lunch'', itemText = ''Pasta'', itemsTop = [anket_makeItem example_item],
          itemsLatest = [anket_makeItem example_item], itemsUser = []\<rparr>"
        "\<lparr>url = ''ws://localhost:3000/p/lunch/ws'', sent = []\<rparr>"
        "\<lparr>defaultPrevented = False\<rparr>"]
    submit_listener_sends_iff_nonempty
    [of "example_page []"
        "\<lparr>title = ''Lunch'', itemText = [], itemsTop = [anket_makeItem example_item],
          itemsLatest = [anket_makeItem example_item], itemsUser = []\<rparr>"
        "\<lparr>url = ''ws://localhost:3000/p/lunch/ws'', sent = []\<rparr>"
        "\<lparr>defaultPrevented = False\<rparr>"]
  by (simp add: example_page_def)

text \<open>
  C3, as the specification has it, fails: a text of one blank is empty after trimming,
  and submitting it sends \<^verbatim>\<open>AddItem\<close> with that blank as its text.
\<close>

theorem submit_listener_blank_counterexample:
  "trim '' '' = []
   \<and> map_option sent (socket (snd (snd (submit_listener \<lparr>defaultPrevented = False\<rparr> (example_page '' '')))))
     = Some [AddItem '' '']"
  by (simp add: trim_def is_space_def submit_listener_def example_page_def)

text \<open>
  C10. Every submission calls \<^verbatim>\<open>preventDefault\<close> and leaves the text input empty,
  whether or not a message was sent; the listener does not throw.
\<close>

theorem submit_listener_clears_input:
  assumes "canvas s = Some cv" and "socket s = Some ws"
  shows "fst (submit_listener event s) = None
    \<and> defaultPrevented (fst (snd (submit_listener event s)))
    \<and> map_option itemText (canvas (snd (snd (submit_listener event s)))) = Some []"
  using assms by (simp add: submit_listener_result)

theorem submit_listener_clears_input_witness:
  "defaultPrevented (fst (snd (submit_listener \<lparr>defaultPrevented = False\<rparr> (example_page ''Pasta''))))
   \<and> map_option itemText (canvas (snd (snd (submit_listener \<lparr>defaultPrevented = False\<rparr> (example_page ''Pasta'')))))
     = Some []
   \<and> defaultPrevented (fst (snd (submit_listener \<lparr>defaultPrevented = False\<rparr> (example_page []))))
   \<and> map_option itemText (canvas (snd (snd (submit_listener \<lparr>defaultPrevented = False\<rparr> (example_page [])))))
     = Some []"
  using submit_listener_clears_input
    [of "example_page ''Pasta''"
        "\<lparr>title = ''Lunch'', itemText = ''Pasta'', itemsTop = [anket_makeItem example_item],
          itemsLatest = [anket_makeItem example_item], itemsUser = []\<rparr>"
        "\<lparr>url = ''ws://localhost:3000/p/lunch/ws'', sent = []\<rparr>"
        "\<lparr>defaultPrevented = False\<rparr>"]
    submit_listener_clears_input
    [of "example_page []"
        "\<lparr>title = ''Lunch'', itemText = [], itemsTop = [anket_makeItem example_item],
          itemsLatest = [anket_makeItem example_item], itemsUser = []\<rparr>"
        "\<lparr>url = ''ws://localhost:3000/p/lunch/ws'', sent = []\<rparr>"
        "\<lparr>defaultPrevented = False\<rparr>"]
  by (simp add: example_page_def)

section \<open>Decimal strings\<close>

lemma digit_char_eq:
  assumes "d < 10" and "e < 10"
  shows "digit_char d = digit_char e \<longleftrightarrow> d = e"
proof
  assume "digit_char d = digit_char e"
  then have "(of_char (digit_char d) :: nat) = of_char (digit_char e)" by simp
  then show "d = e" using assms by (simp add: digit_char_def)
qed simp

lemma digit_char_1: "digit_char 1 = CHR ''1''"
  by code_simp

lemma digit_char_not_minus:
  assumes "d < 10"
  shows "digit_char d \<noteq> CHR ''-''"
proof
  assume "digit_char d = CHR ''-''"
  then have "(of_char (digit_char d) :: nat) = of_char (CHR ''-'')" by simp
  then show False using assms by (simp add: digit_char_def)
qed

lemma show_nat_nonempty: "show_nat n \<noteq> []"
  by (subst show_nat.simps) simp

lemma show_nat_eq_1: "show_nat n = ''1'' \<longleftrightarrow> n = 1"
proof (cases "n < 10")
  case True
  then have "show_nat n = [digit_char n]" by (subst show_nat.simps) simp
  then show ?thesis using True digit_char_eq [of n 1] by (simp add: digit_char_1 [symmetric])
next
  case False
  then have "show_nat n = show_nat (n div 10) @ [digit_char (n mod 10)]"
    by (subst show_nat.simps) simp
  then have "length (show_nat n) \<ge> 2"
    using show_nat_nonempty [of "n div 10"] by (cases "show_nat (n div 10)") simp_all
  then show ?thesis using False by auto
qed

lemma show_nat_hd_not_minus: "hd (show_nat n) \<noteq> CHR ''-''"
proof (induction n rule: show_nat.induct)
  case (1 n)
  show ?case
  proof (cases "n < 10")
    case True
    then show ?thesis by (subst show_nat.simps) (simp add: digit_char_not_minus)
  next
    case False
    then show ?thesis using 1 show_nat_nonempty [of "n div 10"]
      by (subst show_nat.simps) simp
  qed
qed

lemma read_show_nat: "read_nat (show_nat n) = n"
proof (induction n rule: show_nat.induct)
  case (1 n)
  show ?case
  proof (cases "n < 10")
    case True
    then show ?thesis
      by (subst show_nat.simps) (simp add: read_nat_def digit_value_def digit_char_def)
  next
    case False
    then have "read_nat (show_nat (n div 10)) = n div 10" using 1 by simp
    then show ?thesis using False
      by (subst show_nat.simps) (simp add: read_nat_def digit_value_def digit_char_def)
  qed
qed

lemma show_nat_inj: "show_nat m = show_nat n \<Longrightarrow> m = n"
  by (metis read_show_nat)

lemma show_int_hd_minus: "hd (show_int i) = CHR ''-'' \<longleftrightarrow> i < 0"
  by (simp add: show_int_def show_nat_hd_not_minus)

text \<open>Different integers have different string forms.\<close>

lemma show_int_inj: "show_int i = show_int j \<longleftrightarrow> i = j"
proof
  assume e: "show_int i = show_int j"
  then have sign: "i < 0 \<longleftrightarrow> j < 0"
    using show_int_hd_minus [of i] show_int_hd_minus [of j] by simp
  show "i = j"
  proof (cases "i < 0")
    case True
    with sign e have "show_nat (nat (- i)) = show_nat (nat (- j))" by (simp add: show_int_def)
    then have "nat (- i) = nat (- j)" by (rule show_nat_inj)
    with True sign show ?thesis by simp
  next
    case False
    with sign e have "show_nat (nat i) = show_nat (nat j)" by (simp add: show_int_def)
    then have "nat i = nat j" by (rule show_nat_inj)
    with False sign show ?thesis by simp
  qed
qed simp

lemma show_int_eq_1: "show_int v = ''1'' \<longleftrightarrow> v = 1"
proof (cases "v < 0")
  case True
  then show ?thesis by (simp add: show_int_def)
next
  case False
  then show ?thesis by (auto simp add: show_int_def show_nat_eq_1)
qed

lemma show_int_eq_minus_1: "show_int v = ''-1'' \<longleftrightarrow> v = - 1"
proof (cases "v < 0")
  case True
  then show ?thesis by (auto simp add: show_int_def show_nat_eq_1)
next
  case False
  then have "show_int v = show_nat (nat v)" by (simp add: show_int_def)
  then show ?thesis using show_nat_hd_not_minus [of "nat v"] False by auto
qed

section \<open>Items and their buttons\<close>

lemma arrows_differ:
  "arrow_up_black \<noteq> arrow_up_white" "arrow_down_black \<noteq> arrow_down_white"
  by (simp_all add: arrow_up_black_def arrow_up_white_def arrow_down_black_def
      arrow_down_white_def)

text \<open>
  C5. The element made for an item view carries the string forms of the id and of
  \<^verbatim>\<open>user_vote\<close> in its two attributes, shows the score in the score element and the
  text in the content element, and shows the black up arrow exactly when
  \<^verbatim>\<open>user_vote\<close> is 1 (the white one otherwise) and the black down arrow exactly when
  \<^verbatim>\<open>user_vote\<close> is -1 (the white one otherwise).
\<close>

theorem anket_makeItem_shows_item:
  "attr_itemID (anket_makeItem details) = show_id (iv_id details)
   \<and> attr_itemUserVote (anket_makeItem details) = show_int (iv_user_vote details)
   \<and> option_score (anket_makeItem details) = show_int (iv_score details)
   \<and> option_content (anket_makeItem details) = iv_text details
   \<and> (option_vote_up (anket_makeItem details) = arrow_up_black \<longleftrightarrow> iv_user_vote details = 1)
   \<and> (option_vote_up (anket_makeItem details) = arrow_up_white \<longleftrightarrow> iv_user_vote details \<noteq> 1)
   \<and> (option_vote_down (anket_makeItem details) = arrow_down_black
        \<longleftrightarrow> iv_user_vote details = - 1)
   \<and> (option_vote_down (anket_makeItem details) = arrow_down_white
        \<longleftrightarrow> iv_user_vote details \<noteq> - 1)"
  using arrows_differ by (simp add: anket_makeItem_def)

theorem anket_makeItem_shows_item_witness:
  "anket_makeItem example_item =
     \<lparr>attr_itemID = ''7'', attr_itemUserVote = ''1'', option_score = ''2'',
      option_content = ''Pizza'', option_vote_up = arrow_up_black,
      option_vote_down = arrow_down_white, closure_id = NumID 7\<rparr>"
proof -
  have "show_int 7 = ''7''" and "show_int 1 = ''1''" and "show_int 2 = ''2''"
    by code_simp+
  then show ?thesis
    using anket_makeItem_shows_item [of example_item]
    by (simp add: example_item_def anket_makeItem_def)
qed

lemma click_sends:
  assumes "socket s = Some ws"
  shows "buttonUp_onclick item s =
      (None, s\<lparr>socket := Some (ws\<lparr>sent := sent ws @
          [VoteItem (closure_id item) (if attr_itemUserVote item = ''1'' then 0 else 1)]\<rparr>)\<rparr>)"
    and "buttonDown_onclick item s =
      (None, s\<lparr>socket := Some (ws\<lparr>sent := sent ws @
          [VoteItem (closure_id item) (if attr_itemUserVote item = ''-1'' then 0 else - 1)]\<rparr>)\<rparr>)"
  using assms
  by (simp_all add: buttonUp_onclick_def buttonDown_onclick_def anket_sendVoteItemMsg_def)

text \<open>
  C2. On an item rendered with user vote \<open>v\<close>, a click on the up button sends
  \<^verbatim>\<open>VoteItem\<close> for that item with vote 0 when \<open>v = 1\<close> and vote 1 otherwise, and a
  click on the down button sends vote 0 when \<open>v = -1\<close> and vote -1 otherwise. So a
  click on the button of the vote already shown retracts it, and whatever element a
  button belongs to, the vote it sends is -1, 0 or 1.
\<close>

theorem vote_buttons_toggle:
  assumes "socket s = Some ws"
  shows "buttonUp_onclick (anket_makeItem details) s =
      (None, s\<lparr>socket := Some (ws\<lparr>sent := sent ws @
          [VoteItem (iv_id details) (if iv_user_vote details = 1 then 0 else 1)]\<rparr>)\<rparr>)
    \<and> buttonDown_onclick (anket_makeItem details) s =
      (None, s\<lparr>socket := Some (ws\<lparr>sent := sent ws @
          [VoteItem (iv_id details) (if iv_user_vote details = - 1 then 0 else - 1)]\<rparr>)\<rparr>)
    \<and> (\<exists>v. (v = - 1 \<or> v = 0 \<or> v = 1) \<and> buttonUp_onclick item s =
          (None, s\<lparr>socket := Some (ws\<lparr>sent := sent ws @ [VoteItem (closure_id item) v]\<rparr>)\<rparr>))
    \<and> (\<exists>v. (v = - 1 \<or> v = 0 \<or> v = 1) \<and> buttonDown_onclick item s =
          (None, s\<lparr>socket := Some (ws\<lparr>sent := sent ws @ [VoteItem (closure_id item) v]\<rparr>)\<rparr>))"
proof -
  have made: "attr_itemUserVote (anket_makeItem details) = show_int (iv_user_vote details)"
    "closure_id (anket_makeItem details) = iv_id details"
    by (simp_all add: anket_makeItem_def)
  have up: "buttonUp_onclick (anket_makeItem details) s =
      (None, s\<lparr>socket := Some (ws\<lparr>sent := sent ws @
          [VoteItem (iv_id details) (if iv_user_vote details = 1 then 0 else 1)]\<rparr>)\<rparr>)"
    using click_sends(1) [OF assms, of "anket_makeItem details"]
    by (simp add: made show_int_eq_1)
  have down: "buttonDown_onclick (anket_makeItem details) s =
      (None, s\<lparr>socket := Some (ws\<lparr>sent := sent ws @
          [VoteItem (iv_id details) (if iv_user_vote details = - 1 then 0 else - 1)]\<rparr>)\<rparr>)"
    using click_sends(2) [OF assms, of "anket_makeItem details"]
    by (simp add: made show_int_eq_minus_1)
  have any_up: "\<exists>v. (v = - 1 \<or> v = 0 \<or> v = 1) \<and> buttonUp_onclick item s =
      (None, s\<lparr>socket := Some (ws\<lparr>sent := sent ws @ [VoteItem (closure_id item) v]\<rparr>)\<rparr>)"
    using click_sends(1) [OF assms, of item]
    by (cases "attr_itemUserVote item = ''1''") auto
  have any_down: "\<exists>v. (v = - 1 \<or> v = 0 \<or> v = 1) \<and> buttonDown_onclick item s =
      (None, s\<lparr>socket := Some (ws\<lparr>sent := sent ws @ [VoteItem (closure_id item) v]\<rparr>)\<rparr>)"
    using click_sends(2) [OF assms, of item]
    by (cases "attr_itemUserVote item = ''-1''") auto
  from up down any_up any_down show ?thesis by blast
qed

text \<open>
  On the example page: the item is shown with user vote 1, and its up button sends vote
  0; shown with user vote 0, the up button sends vote 1 and the down button vote -1.
\<close>

theorem vote_buttons_toggle_witness:
  "buttonUp_onclick (anket_makeItem example_item) (example_page []) =
     (None, (example_page [])\<lparr>socket := Some \<lparr>url = ''ws://localhost:3000/p/lunch/ws'',
                                                sent = [VoteItem (NumID 7) 0]\<rparr>\<rparr>)
   \<and> buttonUp_onclick (anket_makeItem (example_item\<lparr>iv_user_vote := 0\<rparr>)) (example_page []) =
     (None, (example_page [])\<lparr>socket := Some \<lparr>url = ''ws://localhost:3000/p/lunch/ws'',
                                                sent = [VoteItem (NumID 7) 1]\<rparr>\<rparr>)
   \<and> buttonDown_onclick (anket_makeItem (example_item\<lparr>iv_user_vote := 0\<rparr>)) (example_page []) =
     (None, (example_page [])\<lparr>socket := Some \<lparr>url = ''ws://localhost:3000/p/lunch/ws'',
                                                sent = [VoteItem (NumID 7) (- 1)]\<rparr>\<rparr>)"
proof -
  have sock: "socket (example_page []) = Some \<lparr>url = ''ws://localhost:3000/p/lunch/ws'', sent = []\<rparr>"
    by (simp add: example_page_def)
  show ?thesis
    using vote_buttons_toggle [OF sock, of example_item]
      vote_buttons_toggle [OF sock, of "example_item\<lparr>iv_user_vote := 0\<rparr>"]
    by (simp add: example_item_def)
qed

section \<open>The poll id and the address of the socket\<close>

lemma split_slash_nonempty: "split_slash p \<noteq> []"
  by (induction p) (auto split: list.splits)

lemma split_slash_no_slash: "CHR ''/'' \<notin> set t \<Longrightarrow> split_slash t = [t]"
  by (induction t) auto

lemma split_slash_append:
  "CHR ''/'' \<notin> set t \<Longrightarrow> split_slash (t @ CHR ''/'' # rest) = t # split_slash rest"
  by (induction t) auto

text \<open>Splitting gives back the segments a path was put together from.\<close>

lemma split_join_slash:
  "segs \<noteq> [] \<Longrightarrow> \<forall>t\<in>set segs. CHR ''/'' \<notin> set t \<Longrightarrow> split_slash (join_slash segs) = segs"
proof (induction segs rule: join_slash.induct)
  case 1
  then show ?case by simp
next
  case (2 t)
  then show ?case by (simp add: split_slash_no_slash)
next
  case (3 t u us)
  then show ?case by (simp add: split_slash_append)
qed

lemma split_slash_pieces: "\<forall>t\<in>set (split_slash p). CHR ''/'' \<notin> set t"
  by (induction p) (auto split: list.splits)

lemma join_split_slash: "join_slash (split_slash p) = p"
proof (induction p)
  case Nil
  then show ?case by simp
next
  case (Cons c cs)
  obtain w ws where ws: "split_slash cs = w # ws"
    using split_slash_nonempty [of cs] by (cases "split_slash cs") auto
  show ?case
  proof (cases "c = CHR ''/''")
    case True
    then show ?thesis using Cons ws by simp
  next
    case False
    then show ?thesis using Cons ws by (cases ws) auto
  qed
qed

text \<open>
  Every pathname is the join of its segments, which are not empty as a list and hold no
  slash; so the statements below about segments speak about every pathname.
\<close>

lemma pathname_segments:
  "split_slash p \<noteq> [] \<and> (\<forall>t\<in>set (split_slash p). CHR ''/'' \<notin> set t)
   \<and> p = join_slash (split_slash p)"
  by (simp add: split_slash_nonempty split_slash_pieces join_split_slash)

lemma slice_from_end_two: "slice_from_end 2 (before @ [a, b]) = [a, b]"
  by (simp add: slice_from_end_def)

lemma slice_from_end_short: "length xs \<le> k \<Longrightarrow> slice_from_end k xs = xs"
  by (simp add: slice_from_end_def)

lemma anket_getPollID_split:
  "anket_getPollID loc =
     (case rev (split_slash (pathname loc)) of
        b # a # before \<Rightarrow>
          if a = ''p'' \<and> b \<noteq> [] then Inr b else Inl (Error poll_id_message)
      | _ \<Rightarrow> Inl (Error poll_id_message))"
proof (cases "rev (split_slash (pathname loc))")
  case Nil
  then show ?thesis using split_slash_nonempty [of "pathname loc"] by simp
next
  case (Cons b r)
  note outer = this
  show ?thesis
  proof (cases r)
    case Nil
    with outer have "split_slash (pathname loc) = [b]" by (simp add: rev_eq_Cons_iff)
    with outer Nil show ?thesis by (simp add: anket_getPollID_def slice_from_end_short)
  next
    case (Cons a before)
    with outer have "split_slash (pathname loc) = rev before @ [a, b]"
      by (simp add: rev_eq_Cons_iff)
    with outer Cons show ?thesis
      by (auto simp add: anket_getPollID_def slice_from_end_two)
  qed
qed

text \<open>
  C7. Let the pathname consist of the segments \<open>segs\<close>. When there are at least two
  and the second-to-last is \<open>p\<close> and the last is not empty, \<^verbatim>\<open>anket_getPollID\<close>
  returns the last segment; in every other case it throws the error with the message
  \<open>Couldn't determine poll ID from this URL.\<close> The segments before the last two play
  no part: replacing them by any others gives the same result.
\<close>

theorem anket_getPollID_segments:
  assumes "segs \<noteq> []" and "\<forall>t\<in>set segs. CHR ''/'' \<notin> set t"
      and "pathname loc = join_slash segs"
  shows "anket_getPollID loc =
      (case rev segs of
         b # a # before \<Rightarrow>
           if a = ''p'' \<and> b \<noteq> [] then Inr b
           else Inl (Error ''Couldn't determine poll ID from this URL.'')
       | _ \<Rightarrow> Inl (Error ''Couldn't determine poll ID from this URL.''))
    \<and> (\<forall>before before' a b.
          segs = before @ [a, b] \<and> (\<forall>t\<in>set before'. CHR ''/'' \<notin> set t) \<longrightarrow>
          anket_getPollID (loc\<lparr>pathname := join_slash (before' @ [a, b])\<rparr>) = anket_getPollID loc)"
proof -
  have split: "split_slash (pathname loc) = segs"
    using assms by (simp add: split_join_slash)
  then have first: "anket_getPollID loc =
      (case rev segs of
         b # a # before \<Rightarrow>
           if a = ''p'' \<and> b \<noteq> [] then Inr b
           else Inl (Error ''Couldn't determine poll ID from this URL.'')
       | _ \<Rightarrow> Inl (Error ''Couldn't determine poll ID from this URL.''))"
    using anket_getPollID_split [of loc] unfolding poll_id_message_def by simp
  have second: "anket_getPollID (loc\<lparr>pathname := join_slash (before' @ [a, b])\<rparr>) = anket_getPollID loc"
    if "segs = before @ [a, b]" and "\<forall>t\<in>set before'. CHR ''/'' \<notin> set t"
    for before before' a b
  proof -
    have "\<forall>t\<in>set (before' @ [a, b]). CHR ''/'' \<notin> set t"
      using that assms(2) by auto
    then have "split_slash (join_slash (before' @ [a, b])) = before' @ [a, b]"
      by (simp add: split_join_slash)
    then show ?thesis
      using split that(1) by (simp add: anket_getPollID_split)
  qed
  from first second show ?thesis by blast
qed

text \<open>
  On \<open>/p/lunch\<close> the poll id is \<open>lunch\<close>, and so it is on \<open>/polls/p/lunch\<close>; on
  \<open>/p/lunch/\<close>, whose last segment is empty, and on \<open>/q/lunch\<close> the error is thrown.
\<close>

theorem anket_getPollID_segments_witness:
  "anket_getPollID \<lparr>pathname = ''/p/lunch'', protocol = ''https:'', host = ''example.org''\<rparr>
     = Inr ''lunch''
   \<and> anket_getPollID \<lparr>pathname = ''/polls/p/lunch'', protocol = ''https:'', host = ''example.org''\<rparr>
     = Inr ''lunch''
   \<and> anket_getPollID \<lparr>pathname = ''/p/lunch/'', protocol = ''https:'', host = ''example.org''\<rparr>
     = Inl (Error ''Couldn't determine poll ID from this URL.'')
   \<and> anket_getPollID \<lparr>pathname = ''/q/lunch'', protocol = ''https:'', host = ''example.org''\<rparr>
     = Inl (Error ''Couldn't determine poll ID from this URL.'')"
  using
    anket_getPollID_segments [of "[[], ''p'', ''lunch'']"
      "\<lparr>pathname = ''/p/lunch'', protocol = ''https:'', host = ''example.org''\<rparr>"]
    anket_getPollID_segments [of "[[], ''polls'', ''p'', ''lunch'']"
      "\<lparr>pathname = ''/polls/p/lunch'', protocol = ''https:'', host = ''example.org''\<rparr>"]
    anket_getPollID_segments [of "[[], ''p'', ''lunch'', []]"
      "\<lparr>pathname = ''/p/lunch/'', protocol = ''https:'', host = ''example.org''\<rparr>"]
    anket_getPollID_segments [of "[[], ''q'', ''lunch'']"
      "\<lparr>pathname = ''/q/lunch'', protocol = ''https:'', host = ''example.org''\<rparr>"]
  by simp

lemma is_ws_url_anket_getWSUrl: "is_ws_url (anket_getWSUrl loc pollID)"
  by (simp add: is_ws_url_def anket_getWSUrl_def)

lemma server_ws_url_relative:
  "\<not> is_ws_url (server_ws_url pollID)"
  "take 1 (server_ws_url pollID) = ''/''"
  "take 2 (server_ws_url pollID) \<noteq> ''//''"
  by (simp_all add: is_ws_url_def server_ws_url_def)

text \<open>
  The client of \<^verbatim>\<open>src/templates/poll.js\<close> builds the whole address itself. With
  either kind of constructor the socket is made for the scheme \<open>wss\<close> when the protocol
  of the page is \<open>https:\<close> and \<open>ws\<close> otherwise, the host of the page and the path
  \<open>/p/{pollID}/ws\<close>.
\<close>

lemma anket_main_socket_url:
  assumes "anket_getPollID loc = Inr pollID"
  shows "anket_main kind loc s =
      (None, s\<lparr>socket := Some \<lparr>url = (if protocol loc = ''https:'' then ''wss'' else ''ws'')
                                     @ ''://'' @ host loc @ ''/p/'' @ pollID @ ''/ws'',
                               sent = []\<rparr>\<rparr>)"
proof -
  have "new_WebSocket kind loc (anket_getWSUrl loc pollID) =
      Inr \<lparr>url = anket_getWSUrl loc pollID, sent = []\<rparr>"
    by (simp add: new_WebSocket_def is_ws_url_anket_getWSUrl)
  then show ?thesis
    using assms by (simp add: anket_main_def anket_getWSUrl_def)
qed

text \<open>
  The client of \<^verbatim>\<open>server/src/templates/poll.js\<close> passes the path alone. Where the
  constructor resolves it against the page, and the page was loaded over \<open>https:\<close> or
  \<open>http:\<close>, the socket gets the same address as above.
\<close>

lemma server_anket_main_resolved:
  assumes "anket_getPollID loc = Inr pollID"
      and "protocol loc = ''https:'' \<or> protocol loc = ''http:''"
  shows "server_anket_main ResolvesAgainstPage loc s =
      (None, s\<lparr>socket := Some \<lparr>url = (if protocol loc = ''https:'' then ''wss'' else ''ws'')
                                     @ ''://'' @ host loc @ ''/p/'' @ pollID @ ''/ws'',
                               sent = []\<rparr>\<rparr>)"
proof -
  have "new_WebSocket ResolvesAgainstPage loc (server_ws_url pollID) =
      Inr \<lparr>url = (if protocol loc = ''https:'' then ''wss'' else ''ws'')
                   @ ''://'' @ host loc @ server_ws_url pollID, sent = []\<rparr>"
    using assms(2) server_ws_url_relative [of pollID] by (auto simp add: new_WebSocket_def)
  then show ?thesis
    using assms(1) by (simp add: server_anket_main_def server_ws_url_def)
qed

text \<open>
  Where the constructor takes absolute addresses only, that client gets no socket: the
  constructor throws, and \<^verbatim>\<open>anket.socket\<close> stays as it was.
\<close>

lemma server_anket_main_absolute_only:
  assumes "anket_getPollID loc = Inr pollID"
  shows "server_anket_main AbsoluteOnly loc s = (Some SyntaxError, s)"
proof -
  have "new_WebSocket AbsoluteOnly loc (server_ws_url pollID) = Inl SyntaxError"
    by (simp add: new_WebSocket_def server_ws_url_relative)
  then show ?thesis
    using assms by (simp add: server_anket_main_def)
qed

lemma example_poll_id:
  "anket_getPollID \<lparr>pathname = ''/p/lunch'', protocol = prot, host = h\<rparr> = Inr ''lunch''"
  by (simp add: anket_getPollID_def slice_from_end_def)

text \<open>
  C8. The client is to open its connection at the path \<open>/p/{pollID}/ws\<close> on the host
  of the page, with the scheme \<open>wss\<close> exactly when the protocol of the page is
  \<open>https:\<close> and \<open>ws\<close> otherwise. The client of \<^verbatim>\<open>server/src/templates/poll.js\<close>
  does not: it names neither scheme nor host and hands the constructor the path alone.
  On the page \<open>https://example.org/p/lunch\<close>, in a browser whose constructor takes
  absolute addresses only, its \<^verbatim>\<open>anket_main\<close> ends in a SyntaxError and the page has
  no socket, while the client of \<^verbatim>\<open>src/templates/poll.js\<close>, on the same page in the
  same browser, makes the socket for \<open>wss://example.org/p/lunch/ws\<close>.
\<close>

theorem server_anket_main_relative_url_throws:
  "server_anket_main AbsoluteOnly
     \<lparr>pathname = ''/p/lunch'', protocol = ''https:'', host = ''example.org''\<rparr> initial_page
     = (Some SyntaxError, \<lparr>canvas = None, socket = None, alerts = []\<rparr>)
   \<and> anket_main AbsoluteOnly
     \<lparr>pathname = ''/p/lunch'', protocol = ''https:'', host = ''example.org''\<rparr> initial_page
     = (None, \<lparr>canvas = None,
               socket = Some \<lparr>url = ''wss://example.org/p/lunch/ws'', sent = []\<rparr>,
               alerts = []\<rparr>)"
proof -
  have "server_anket_main AbsoluteOnly
      \<lparr>pathname = ''/p/lunch'', protocol = ''https:'', host = ''example.org''\<rparr> initial_page
      = (Some SyntaxError, initial_page)"
    by (rule server_anket_main_absolute_only [OF example_poll_id])
  moreover have "anket_main AbsoluteOnly
      \<lparr>pathname = ''/p/lunch'', protocol = ''https:'', host = ''example.org''\<rparr> initial_page
      = (None, initial_page\<lparr>socket := Some \<lparr>url = ''wss://example.org/p/lunch/ws'', sent = []\<rparr>\<rparr>)"
    using anket_main_socket_url [OF example_poll_id, of AbsoluteOnly "''https:''" "''example.org''" initial_page]
    by simp
  ultimately show ?thesis by (simp add: initial_page_def)
qed

text \<open>
  The same two clients on the same page in a browser whose constructor resolves against
  the page, and on a page loaded over \<open>http:\<close>.
\<close>

lemma anket_main_examples:
  "server_anket_main ResolvesAgainstPage
     \<lparr>pathname = ''/p/lunch'', protocol = ''https:'', host = ''example.org''\<rparr> initial_page
     = (None, \<lparr>canvas = None,
               socket = Some \<lparr>url = ''wss://example.org/p/lunch/ws'', sent = []\<rparr>,
               alerts = []\<rparr>)"
  "anket_main ResolvesAgainstPage
     \<lparr>pathname = ''/p/lunch'', protocol = ''http:'', host = ''localhost:3000''\<rparr> initial_page
     = (None, \<lparr>canvas = None,
               socket = Some \<lparr>url = ''ws://localhost:3000/p/lunch/ws'', sent = []\<rparr>,
               alerts = []\<rparr>)"
  using
    server_anket_main_resolved [OF example_poll_id, of "''https:''" "''example.org''" initial_page]
    anket_main_socket_url [OF example_poll_id, of ResolvesAgainstPage "''http:''" "''localhost:3000''" initial_page]
  by (simp_all add: initial_page_def)

section \<open>When the listeners run\<close>

text \<open>
  The theorems about the form, the buttons and the rendering assume a page with a socket
  and a canvas. That is the page the listeners find: \<^verbatim>\<open>anket_main\<close> makes the socket,
  the open listener sets up the canvas before any message arrives or any form or button
  exists, and no listener takes either away.
\<close>

lemma ready_after_open:
  assumes "anket_main kind loc initial_page = (None, s)"
  shows "canvas (snd (open_listener s)) \<noteq> None \<and> socket (snd (open_listener s)) \<noteq> None"
  using assms
  by (auto simp add: anket_main_def open_listener_def anket_initCanvas_def split: sum.splits)

lemma server_ready_after_open:
  assumes "server_anket_main kind loc initial_page = (None, s)"
  shows "canvas (snd (open_listener s)) \<noteq> None \<and> socket (snd (open_listener s)) \<noteq> None"
  using assms
  by (auto simp add: server_anket_main_def open_listener_def anket_initCanvas_def
      split: sum.splits)

lemma case_PollStateUpdate_keeps_ready:
  assumes "canvas s \<noteq> None"
  shows "canvas (snd (case_PollStateUpdate c s)) \<noteq> None
    \<and> socket (snd (case_PollStateUpdate c s)) = socket s"
proof -
  from assms obtain cv where cv: "canvas s = Some cv" by auto
  show ?thesis
  proof (cases c)
    case (Text t)
    then show ?thesis using case_PollStateUpdate_Text [OF cv, of t] by simp
  next
    case (State p)
    then show ?thesis using case_PollStateUpdate_State [OF cv, of p] by simp
  qed
qed

lemma listeners_keep_ready:
  assumes "canvas s \<noteq> None" and "socket s \<noteq> None"
  shows "canvas (snd (message_listener data s)) \<noteq> None"
    and "socket (snd (message_listener data s)) \<noteq> None"
    and "canvas (snd (server_message_listener data s)) \<noteq> None"
    and "socket (snd (server_message_listener data s)) \<noteq> None"
    and "canvas (snd (snd (submit_listener event s))) \<noteq> None"
    and "socket (snd (snd (submit_listener event s))) \<noteq> None"
    and "canvas (snd (buttonUp_onclick item s)) \<noteq> None"
    and "socket (snd (buttonUp_onclick item s)) \<noteq> None"
    and "canvas (snd (buttonDown_onclick item s)) \<noteq> None"
    and "socket (snd (buttonDown_onclick item s)) \<noteq> None"
    and "canvas (snd (close_listener cev s)) \<noteq> None"
    and "socket (snd (close_listener cev s)) \<noteq> None"
    and "canvas (snd (error_listener s)) \<noteq> None"
    and "socket (snd (error_listener s)) \<noteq> None"
proof -
  from assms obtain cv ws where cv: "canvas s = Some cv" and ws: "socket s = Some ws" by auto
  have al: "canvas (alert m s) \<noteq> None" for m
    using assms(1) by (simp add: alert_def)
  have als: "socket (alert m s) = socket s" for m
    by (simp add: alert_def)
  have upd: "canvas (snd (case_PollStateUpdate c s)) \<noteq> None"
    "socket (snd (case_PollStateUpdate c s)) \<noteq> None" for c
    using case_PollStateUpdate_keeps_ready [OF assms(1), of c] assms(2) by simp_all
  have upd_al: "canvas (snd (case_PollStateUpdate c (alert m s))) \<noteq> None"
    "socket (snd (case_PollStateUpdate c (alert m s))) \<noteq> None" for c m
    using case_PollStateUpdate_keeps_ready [OF al, of c m] assms(2) als [of m] by simp_all
  show "canvas (snd (message_listener data s)) \<noteq> None"
    using upd(1) al assms(1) by (simp add: message_listener_def)
  show "socket (snd (message_listener data s)) \<noteq> None"
    using upd(2) als assms(2) by (simp add: message_listener_def)
  show "canvas (snd (server_message_listener data s)) \<noteq> None"
    using upd(1) upd_al(1) assms(1) by (simp add: server_message_listener_def)
  show "socket (snd (server_message_listener data s)) \<noteq> None"
    using upd(2) upd_al(2) assms(2) by (simp add: server_message_listener_def)
  show "canvas (snd (snd (submit_listener event s))) \<noteq> None"
    by (simp add: submit_listener_result [OF cv ws])
  show "socket (snd (snd (submit_listener event s))) \<noteq> None"
    by (simp add: submit_listener_result [OF cv ws])
  show "canvas (snd (buttonUp_onclick item s)) \<noteq> None"
    using cv by (simp add: click_sends(1) [OF ws])
  show "socket (snd (buttonUp_onclick item s)) \<noteq> None"
    by (simp add: click_sends(1) [OF ws])
  show "canvas (snd (buttonDown_onclick item s)) \<noteq> None"
    using cv by (simp add: click_sends(2) [OF ws])
  show "socket (snd (buttonDown_onclick item s)) \<noteq> None"
    by (simp add: click_sends(2) [OF ws])
  show "canvas (snd (close_listener cev s)) \<noteq> None"
    using cv by (simp add: close_listener_def alert_def)
  show "socket (snd (close_listener cev s)) \<noteq> None"
    using ws by (simp add: close_listener_def alert_def)
  show "canvas (snd (error_listener s)) \<noteq> None"
    using cv by (simp add: error_listener_def alert_def)
  show "socket (snd (error_listener s)) \<noteq> None"
    using ws by (simp add: error_listener_def alert_def)
qed

end
